theory Spec2Isabelle
  imports Complex_Main "HOL-Library.Word"
begin

section \<open>Python string primitives used by the converter\<close>

text \<open>
  A Python \<open>str\<close> is modelled as a \<open>string\<close>; one \<open>char\<close> stands for one code point
  (the code points below 256). \<open>py_isspace\<close> is \<open>str.isspace\<close> on one character, which
  is also what \<open>\<bsol>s\<close> matches in a \<open>str\<close> pattern of the \<open>re\<close> module: TAB, LF, VT, FF, CR,
  the separators 0x1C to 0x1F, SPACE, NEL (0x85) and NO-BREAK SPACE (0xA0).
\<close>

definition py_isspace :: "char \<Rightarrow> bool" where
  "py_isspace c \<longleftrightarrow>
     c \<in> set [CHR 0x09, CHR 0x0A, CHR 0x0B, CHR 0x0C, CHR 0x0D,
              CHR 0x1C, CHR 0x1D, CHR 0x1E, CHR 0x1F, CHR 0x20, CHR 0x85, CHR 0xA0]"

abbreviation NL :: char where
  "NL \<equiv> CHR 0x0A"

abbreviation PIPE :: char where
  "PIPE \<equiv> CHR ''|''"

text \<open>\<open>s.lstrip()\<close>, \<open>s.rstrip()\<close> and \<open>s.strip()\<close> without argument.\<close>

definition lstrip :: "string \<Rightarrow> string" where
  "lstrip s = dropWhile py_isspace s"

definition rstrip :: "string \<Rightarrow> string" where
  "rstrip s = rev (dropWhile py_isspace (rev s))"

definition strip :: "string \<Rightarrow> string" where
  "strip s = rstrip (lstrip s)"

text \<open>\<open>s.split(sep)\<close> for a separator of one character: one field more than separators.\<close>

fun split_on :: "char \<Rightarrow> string \<Rightarrow> string list" where
  "split_on sep [] = [[]]"
| "split_on sep (c # s) =
     (if c = sep then [] # split_on sep s
      else (case split_on sep s of
              [] \<Rightarrow> [[c]]
            | f # fs \<Rightarrow> (c # f) # fs))"

text \<open>\<open>sep.join(xs)\<close>.\<close>

fun join :: "string \<Rightarrow> string list \<Rightarrow> string" where
  "join sep [] = []"
| "join sep [x] = x"
| "join sep (x # y # ys) = x @ sep @ join sep (y # ys)"

text \<open>
  The slice \<open>xs[1:-1]\<close>: the elements at the indices from 1 up to, and without, the last
  one; empty when \<open>xs\<close> has fewer than three elements.
\<close>

definition slice_1_m1 :: "'a list \<Rightarrow> 'a list" where
  "slice_1_m1 xs = butlast (tl xs)"

section \<open>Data frames\<close>

text \<open>
  A \<open>pandas.DataFrame\<close> as the converter uses it: the column names and the rows of cells.
  A cell is a missing value (\<open>NaN\<close>) or a value, which is identified with its \<open>str()\<close>.
\<close>

datatype cell = NaN | Str string

record dataframe =
  columns :: "string list"
  rows :: "cell list list"

text \<open>\<open>df.empty\<close>: one of the two axes has length 0.\<close>

definition df_empty :: "dataframe \<Rightarrow> bool" where
  "df_empty df \<longleftrightarrow> columns df = [] \<or> rows df = []"

text \<open>\<open>df.fillna('')\<close>.\<close>

definition fill_cell :: "cell \<Rightarrow> cell" where
  "fill_cell c = (case c of NaN \<Rightarrow> Str [] | Str s \<Rightarrow> Str s)"

definition fillna :: "dataframe \<Rightarrow> dataframe" where
  "fillna df = df\<lparr>rows := map (map fill_cell) (rows df)\<rparr>"

text \<open>\<open>str(cell) if pd.notna(cell) else ""\<close>.\<close>

definition cell_str :: "cell \<Rightarrow> string" where
  "cell_str c = (case c of NaN \<Rightarrow> [] | Str s \<Rightarrow> s)"

section \<open>Extraction of Markdown tables\<close>

text \<open>\<open>[cell.strip() for cell in line.split('|')[1:-1]]\<close>, in lines 146 and 159.\<close>

definition split_cells :: "string \<Rightarrow> string list" where
  "split_cells line = map strip (slice_1_m1 (split_on PIPE line))"

text \<open>
  \<open>re.match(r'^\<bsol>|[\<bsol>s:-]+\<bsol>|[\<bsol>s:-]+\<bsol>|', line)\<close>. The class \<open>[\<bsol>s:-]\<close> does not contain the
  pipe, so the run that \<open>[\<bsol>s:-]+\<close> matches before a pipe is the longest run of class
  characters: \<open>sep_cell\<close> matches \<open>[\<bsol>s:-]+\<bsol>|\<close> at the start of a string and returns the
  rest. \<open>re.match\<close> matches a prefix: nothing is required of the rest of the line.
\<close>

definition sep_class :: "char \<Rightarrow> bool" where
  "sep_class c \<longleftrightarrow> py_isspace c \<or> c = CHR '':'' \<or> c = CHR ''-''"

definition sep_cell :: "string \<Rightarrow> string option" where
  "sep_cell s =
     (if takeWhile sep_class s = [] then None
      else (case dropWhile sep_class s of
              [] \<Rightarrow> None
            | c # r \<Rightarrow> if c = PIPE then Some r else None))"

definition separator_match :: "string \<Rightarrow> bool" where
  "separator_match line =
     (case line of
        [] \<Rightarrow> False
      | c # s \<Rightarrow>
          c = PIPE \<and>
          (case sep_cell s of
             None \<Rightarrow> False
           | Some s' \<Rightarrow> sep_cell s' \<noteq> None))"

text \<open>The loop over \<open>data_lines\<close> of \<open>_parse_table_lines\<close>, with \<open>data\<close> as accumulator.\<close>

fun parse_data_lines :: "string list \<Rightarrow> string list \<Rightarrow> string list list \<Rightarrow> string list list" where
  "parse_data_lines headers [] data = data"
| "parse_data_lines headers (line # data_lines) data =
     (if strip line \<noteq> [] \<and> PIPE \<in> set line then
        (let cells = split_cells line in
         if length cells = length headers
         then parse_data_lines headers data_lines (data @ [cells])
         else parse_data_lines headers data_lines data)
      else parse_data_lines headers data_lines data)"

text \<open>\<open>_parse_table_lines\<close>; \<open>None\<close> is the Python \<open>None\<close> it returns.\<close>

definition parse_table_lines :: "string list \<Rightarrow> dataframe option" where
  "parse_table_lines lines =
     (if length lines < 2 then None
      else
        (let header_line = lines ! 0;
             headers = split_cells header_line;
             separator_line = lines ! 1;
             data_lines = (if separator_match separator_line then drop 2 lines else drop 1 lines);
             data = parse_data_lines headers data_lines []
         in if headers = [] then None
            else Some \<lparr>columns = headers, rows = map (map Str) data\<rparr>))"

text \<open>\<open>'|' in line and line.strip().startswith('|')\<close>.\<close>

definition is_table_line :: "string \<Rightarrow> bool" where
  "is_table_line line \<longleftrightarrow>
     PIPE \<in> set line \<and> (case strip line of [] \<Rightarrow> False | c # _ \<Rightarrow> c = PIPE)"

text \<open>
  The scan of \<open>_extract_markdown_tables\<close>: the state is \<open>tables\<close>, \<open>in_table\<close> and
  \<open>current_table\<close>; \<open>close_table\<close> is the parse of a finished block.
\<close>

definition close_table :: "dataframe list \<Rightarrow> string list \<Rightarrow> dataframe list" where
  "close_table tables current_table =
     (case parse_table_lines current_table of
        None \<Rightarrow> tables
      | Some table_df \<Rightarrow> tables @ [table_df])"

fun scan_lines :: "string list \<Rightarrow> dataframe list \<Rightarrow> bool \<Rightarrow> string list
    \<Rightarrow> dataframe list \<times> bool \<times> string list" where
  "scan_lines [] tables in_table current_table = (tables, in_table, current_table)"
| "scan_lines (l # ls) tables in_table current_table =
     (let line = rstrip l in
      if is_table_line line then scan_lines ls tables True (current_table @ [line])
      else if in_table \<and> current_table \<noteq> []
           then scan_lines ls (close_table tables current_table) False []
           else scan_lines ls tables in_table current_table)"

definition extract_markdown_tables :: "string \<Rightarrow> dataframe list" where
  "extract_markdown_tables content =
     (case scan_lines (split_on NL content) [] False [] of
        (tables, in_table, current_table) \<Rightarrow>
          if in_table \<and> current_table \<noteq> [] then close_table tables current_table
          else tables)"

section \<open>Rendering\<close>

text \<open>The text that lines 270 to 277 of \<open>_dataframe_to_md\<close> build, for a frame after \<open>fillna\<close>.\<close>

definition md_line :: "string list \<Rightarrow> string" where
  "md_line xs = ''| '' @ join '' | '' xs @ '' |''"

definition md_row :: "string list \<Rightarrow> string" where
  "md_row xs = md_line xs @ [NL]"

definition md_table :: "dataframe \<Rightarrow> string" where
  "md_table df =
     md_row (columns df) @
     md_row (replicate (length (columns df)) ''---'') @
     concat (map (\<lambda>row. md_row (map cell_str row)) (rows df))"

section \<open>Files, codecs and libraries\<close>

text \<open>
  What the converter reads from its surroundings is an explicit environment. The codecs of
  Python, \<open>chardet\<close>, \<open>pathlib\<close> and \<open>pandas\<close> are not part of the converter: they are fields
  of the environment, and every result below holds for each value of them.
  \<^item> \<open>file_bytes\<close>: the content of a file that can be opened; \<open>None\<close> when \<open>open\<close> raises
    \<open>OSError\<close>.
  \<^item> \<open>bytes_decode enc bs\<close>: \<open>bs.decode(enc, errors='strict')\<close>.
  \<^item> \<open>text_read enc bs n\<close>: \<open>open(path, 'r', encoding=enc).read(n)\<close> on a file whose
    content is \<open>bs\<close>; \<open>n = None\<close> reads all of it.
  \<^item> \<open>chardet_detect\<close>: \<open>chardet.detect\<close>, or \<open>None\<close> when \<open>import chardet\<close> raises
    \<open>ImportError\<close>.
  \<^item> \<open>with_suffix\<close>: \<open>Path(p).with_suffix(s)\<close> (its \<open>ValueError\<close> on a path without a name
    is not modelled).
  \<^item> \<open>excel_write\<close>: the \<open>pd.ExcelWriter\<close> block with its \<open>to_excel\<close> calls; \<open>excel_sheet_names\<close>:
    \<open>pd.ExcelFile(p).sheet_names\<close>; \<open>read_excel\<close>, \<open>read_csv\<close>: the \<open>pandas\<close> readers;
    \<open>write_text\<close>: opening a file for writing as UTF-8 and writing the text. For the two
    writers \<open>None\<close> is success.
  A codec fails with \<open>UnicodeDecodeError\<close> or \<open>LookupError\<close> only.
\<close>

type_synonym path = string
type_synonym byte = "8 word"

datatype codec_error = UnicodeDecodeError | LookupError

datatype exc = CodecError codec_error | OSError | OtherException

text \<open>
  The dictionary \<open>chardet.detect\<close> returns. The confidence is a float; it is modelled by its
  exact value, a rational: no float lies strictly between the float \<open>0.7\<close> and \<open>7/10\<close>, so
  \<open>confidence > 0.7\<close> holds of a float exactly when its value exceeds \<open>7/10\<close>.
\<close>

record chardet_result =
  cd_encoding :: "string option"
  cd_confidence :: rat

record env =
  file_bytes :: "path \<Rightarrow> byte list option"
  bytes_decode :: "string \<Rightarrow> byte list \<Rightarrow> codec_error + string"
  text_read :: "string option \<Rightarrow> byte list \<Rightarrow> nat option \<Rightarrow> codec_error + string"
  chardet_detect :: "(byte list \<Rightarrow> chardet_result) option"
  with_suffix :: "path \<Rightarrow> string \<Rightarrow> path"
  excel_write :: "path \<Rightarrow> (string \<times> dataframe) list \<Rightarrow> exc option"
  excel_sheet_names :: "path \<Rightarrow> exc + string list"
  read_excel :: "path \<Rightarrow> string \<Rightarrow> exc + dataframe"
  read_csv :: "path \<Rightarrow> string option \<Rightarrow> string \<Rightarrow> exc + dataframe"
  write_text :: "path \<Rightarrow> string \<Rightarrow> exc option"

text \<open>
  What an operation does besides returning: the messages it prints (the source prints Chinese
  text; a message is named here by what it reports) and the files it writes. \<open>outcome\<close> is
  the returned value, or \<open>Inl e\<close> when the exception \<open>e\<close> leaves the operation.
\<close>

datatype message =
    DetectedEncoding "string option"
  | ReadFileError exc
  | NoTableFound
  | Converted path
  | ReadExcelError exc
  | WriteFileError exc
  | ReadCsvError exc
  | UsingSeparator string
  | FrameEmpty

datatype file_content = Text string | Workbook "(string \<times> dataframe) list"

record run =
  printed :: "message list"
  written :: "(path \<times> file_content) list"
  outcome :: "exc + bool"

definition raises :: "message list \<Rightarrow> exc \<Rightarrow> run" where
  "raises msgs e = \<lparr>printed = msgs, written = [], outcome = Inl e\<rparr>"

definition returns_False :: "message list \<Rightarrow> run" where
  "returns_False msgs = \<lparr>printed = msgs, written = [], outcome = Inr False\<rparr>"

definition returns_True :: "message list \<Rightarrow> path \<Rightarrow> file_content \<Rightarrow> run" where
  "returns_True msgs p c = \<lparr>printed = msgs, written = [(p, c)], outcome = Inr True\<rparr>"

section \<open>Encoding detection\<close>

definition SUPPORTED_ENCODINGS :: "string list" where
  "SUPPORTED_ENCODINGS =
     [''utf-8'', ''utf-8-sig'',
      ''gbk'', ''gb2312'', ''gb18030'',
      ''big5'',
      ''shift_jis'', ''euc-jp'',
      ''euc-kr'', ''cp949'',
      ''latin-1'', ''iso-8859-1'',
      ''cp1251'', ''cp1252'', ''koi8-r'',
      ''ascii'']"

text \<open>
  The loop of \<open>detect_encoding\<close> over the candidates. \<open>Inr (Some enc)\<close>: the loop returned
  \<open>enc\<close>; \<open>Inr None\<close>: it ran to its end; \<open>Inl e\<close>: \<open>e\<close> was raised and not caught (the
  handler catches the two codec errors, not the \<open>OSError\<close> of \<open>open\<close>).
\<close>

fun try_encodings :: "env \<Rightarrow> path \<Rightarrow> nat \<Rightarrow> string list \<Rightarrow> exc + string option" where
  "try_encodings env file_path sample_size [] = Inr None"
| "try_encodings env file_path sample_size (enc # encodings_to_try) =
     (case file_bytes env file_path of
        None \<Rightarrow> Inl OSError
      | Some bs \<Rightarrow>
          (case bytes_decode env enc (take sample_size bs) of
             Inl _ \<Rightarrow> try_encodings env file_path sample_size encodings_to_try
           | Inr _ \<Rightarrow>
               (case text_read env (Some enc) bs (Some 100) of
                  Inl _ \<Rightarrow> try_encodings env file_path sample_size encodings_to_try
                | Inr _ \<Rightarrow> Inr (Some enc))))"

text \<open>Lines 47 to 58: \<open>chardet\<close> when it can be imported, then the default.\<close>

definition chardet_fallback :: "env \<Rightarrow> path \<Rightarrow> nat \<Rightarrow> exc + string option" where
  "chardet_fallback env file_path sample_size =
     (case chardet_detect env of
        None \<Rightarrow> Inr (Some ''utf-8'')
      | Some detect \<Rightarrow>
          (case file_bytes env file_path of
             None \<Rightarrow> Inl OSError
           | Some bs \<Rightarrow>
               (let result = detect (take (sample_size * 4) bs) in
                if cd_confidence result > 7 / 10 then Inr (cd_encoding result)
                else Inr (Some ''utf-8''))))"

definition detect_encoding :: "env \<Rightarrow> path \<Rightarrow> nat \<Rightarrow> exc + string option" where
  "detect_encoding env file_path sample_size =
     (case try_encodings env file_path sample_size SUPPORTED_ENCODINGS of
        Inl e \<Rightarrow> Inl e
      | Inr (Some enc) \<Rightarrow> Inr (Some enc)
      | Inr None \<Rightarrow> chardet_fallback env file_path sample_size)"

section \<open>The conversions\<close>

text \<open>\<open>str(n)\<close> for a natural number, for the sheet names of \<open>md_to_excel\<close>.\<close>

function str_nat :: "nat \<Rightarrow> string" where
  "str_nat n =
     (if n < 10 then [char_of (48 + n)]
      else str_nat (n div 10) @ [char_of (48 + n mod 10)])"
  by pat_completeness auto
termination
  by (relation "measure id") auto

declare str_nat.simps [simp del]

text \<open>\<open>open(path, 'r', encoding=encoding).read()\<close> inside a \<open>try\<close> that catches \<open>Exception\<close>.\<close>

definition read_file :: "env \<Rightarrow> path \<Rightarrow> string option \<Rightarrow> exc + string" where
  "read_file env p enc =
     (case file_bytes env p of
        None \<Rightarrow> Inl OSError
      | Some bs \<Rightarrow>
          (case text_read env enc bs None of
             Inl e \<Rightarrow> Inl (CodecError e)
           | Inr content \<Rightarrow> Inr content))"

text \<open>The sheet names of lines 88 and 89.\<close>

definition name_sheets :: "string \<Rightarrow> dataframe list \<Rightarrow> (string \<times> dataframe) list" where
  "name_sheets sheet_name tables =
     map (\<lambda>(i, table). (if i > 0 then sheet_name @ ''_'' @ str_nat (i + 1) else sheet_name, table))
       (enumerate 0 tables)"

definition md_to_excel :: "env \<Rightarrow> path \<Rightarrow> path option \<Rightarrow> string \<Rightarrow> run" where
  "md_to_excel env md_file excel_file_arg sheet_name =
     (let excel_file = (case excel_file_arg of
                          None \<Rightarrow> with_suffix env md_file ''.xlsx''
                        | Some p \<Rightarrow> p)
      in case detect_encoding env md_file 1024 of
           Inl e \<Rightarrow> raises [] e
         | Inr enc \<Rightarrow>
             (case read_file env md_file enc of
                Inl e \<Rightarrow> returns_False [DetectedEncoding enc, ReadFileError e]
              | Inr content \<Rightarrow>
                  (let tables = extract_markdown_tables content in
                   if tables = [] then returns_False [DetectedEncoding enc, NoTableFound]
                   else
                     (case excel_write env excel_file (name_sheets sheet_name tables) of
                        Some e \<Rightarrow> raises [DetectedEncoding enc] e
                      | None \<Rightarrow>
                          returns_True [DetectedEncoding enc, Converted excel_file]
                            excel_file (Workbook (name_sheets sheet_name tables))))))"

text \<open>The block of one sheet in \<open>excel_to_md\<close>, lines 196 to 216; \<open>n\<close> is \<open>len(tables)\<close>.\<close>

definition sheet_block :: "nat \<Rightarrow> string \<times> dataframe \<Rightarrow> string" where
  "sheet_block n t =
     (case t of (sheet_name, df0) \<Rightarrow>
        (if n > 1 then ''## '' @ sheet_name @ [NL, NL] else []) @
        (let df = fillna df0 in if \<not> df_empty df then md_table df else []) @
        [NL])"

text \<open>The reads of lines 185 to 187, one per sheet, stopping at the first exception.\<close>

fun read_sheets :: "env \<Rightarrow> path \<Rightarrow> string list \<Rightarrow> exc + (string \<times> dataframe) list" where
  "read_sheets env excel_file [] = Inr []"
| "read_sheets env excel_file (sheet # sheets) =
     (case read_excel env excel_file sheet of
        Inl e \<Rightarrow> Inl e
      | Inr df \<Rightarrow>
          (case read_sheets env excel_file sheets of
             Inl e \<Rightarrow> Inl e
           | Inr tables \<Rightarrow> Inr ((sheet, df) # tables)))"

text \<open>Lines 176 to 190; \<open>if sheet_name:\<close> is false for \<open>None\<close> and for the empty string.\<close>

definition read_tables :: "env \<Rightarrow> path \<Rightarrow> string option \<Rightarrow> exc + (string \<times> dataframe) list" where
  "read_tables env excel_file sheet_name =
     (if sheet_name \<noteq> None \<and> sheet_name \<noteq> Some []
      then (case read_excel env excel_file (the sheet_name) of
              Inl e \<Rightarrow> Inl e
            | Inr df \<Rightarrow> Inr [(the sheet_name, df)])
      else (case excel_sheet_names env excel_file of
              Inl e \<Rightarrow> Inl e
            | Inr sheet_names \<Rightarrow> read_sheets env excel_file sheet_names))"

text \<open>The write at the end of \<open>excel_to_md\<close> and of \<open>_dataframe_to_md\<close>.\<close>

definition write_md :: "env \<Rightarrow> message list \<Rightarrow> path \<Rightarrow> string \<Rightarrow> run" where
  "write_md env msgs md_file md_content =
     (case write_text env md_file md_content of
        Some e \<Rightarrow> returns_False (msgs @ [WriteFileError e])
      | None \<Rightarrow> returns_True (msgs @ [Converted md_file]) md_file (Text md_content))"

definition excel_to_md :: "env \<Rightarrow> path \<Rightarrow> path option \<Rightarrow> string option \<Rightarrow> run" where
  "excel_to_md env excel_file md_file_arg sheet_name =
     (let md_file = (case md_file_arg of
                       None \<Rightarrow> with_suffix env excel_file ''.md''
                     | Some p \<Rightarrow> p)
      in case read_tables env excel_file sheet_name of
           Inl e \<Rightarrow> returns_False [ReadExcelError e]
         | Inr tables \<Rightarrow>
             write_md env [] md_file (concat (map (sheet_block (length tables)) tables)))"

definition dataframe_to_md :: "env \<Rightarrow> message list \<Rightarrow> dataframe \<Rightarrow> path \<Rightarrow> run" where
  "dataframe_to_md env msgs df md_file =
     (if df_empty df then returns_False (msgs @ [FrameEmpty])
      else write_md env msgs md_file (md_table (fillna df)))"

text \<open>The \<open>for\<close> \<open>else\<close> loop of lines 245 to 253 over the other separators.\<close>

fun try_separators :: "env \<Rightarrow> path \<Rightarrow> string option \<Rightarrow> string list \<Rightarrow> (string \<times> dataframe) option" where
  "try_separators env csv_file enc [] = None"
| "try_separators env csv_file enc (sep # seps) =
     (case read_csv env csv_file enc sep of
        Inr df \<Rightarrow> Some (sep, df)
      | Inl _ \<Rightarrow> try_separators env csv_file enc seps)"

definition fallback_separators :: "string list" where
  "fallback_separators = ['';'', [CHR 0x09], ''|'']"

definition convert_csv_to_md :: "env \<Rightarrow> path \<Rightarrow> path option \<Rightarrow> string \<Rightarrow> run" where
  "convert_csv_to_md env csv_file md_file_arg delimiter =
     (let md_file = (case md_file_arg of
                       None \<Rightarrow> with_suffix env csv_file ''.md''
                     | Some p \<Rightarrow> p)
      in case detect_encoding env csv_file 1024 of
           Inl e \<Rightarrow> raises [] e
         | Inr enc \<Rightarrow>
             (case read_csv env csv_file enc delimiter of
                Inr df \<Rightarrow> dataframe_to_md env [DetectedEncoding enc] df md_file
              | Inl e \<Rightarrow>
                  (case try_separators env csv_file enc fallback_separators of
                     None \<Rightarrow> returns_False [DetectedEncoding enc, ReadCsvError e]
                   | Some (sep, df) \<Rightarrow>
                       dataframe_to_md env
                         [DetectedEncoding enc, ReadCsvError e, UsingSeparator sep] df md_file)))"

section \<open>Notions of the specification\<close>

text \<open>
  The invariant of a table in the data model: every row has as many cells as there are
  column names.
\<close>

definition table_invariant :: "dataframe \<Rightarrow> bool" where
  "table_invariant df \<longleftrightarrow> (\<forall>row \<in> set (rows df). length row = length (columns df))"

text \<open>
  A candidate passes both checks of the detector on a file with content \<open>bs\<close>: the sample
  decodes strictly, and the first 100 characters can be read under it.
\<close>

definition passes :: "env \<Rightarrow> byte list \<Rightarrow> nat \<Rightarrow> string \<Rightarrow> bool" where
  "passes env bs sample_size enc \<longleftrightarrow>
     \<not> isl (bytes_decode env enc (take sample_size bs)) \<and>
     \<not> isl (text_read env (Some enc) bs (Some 100))"

text \<open>
  An environment to run the operations in: every file can be opened and reads as \<open>content\<close>
  under the encodings that \<open>ok\<close> accepts, both writers give \<open>wr\<close>, and \<open>read_csv\<close> depends
  on the delimiter only.
\<close>

definition example_env :: "(string \<Rightarrow> bool) \<Rightarrow> (byte list \<Rightarrow> chardet_result) option \<Rightarrow> string
    \<Rightarrow> exc option \<Rightarrow> (string \<Rightarrow> exc + dataframe) \<Rightarrow> env" where
  "example_env ok det content wr csv =
     \<lparr>file_bytes = (\<lambda>p. Some []),
      bytes_decode = (\<lambda>enc bs. if ok enc then Inr [] else Inl UnicodeDecodeError),
      text_read = (\<lambda>enc bs n. case enc of
                      None \<Rightarrow> Inr content
                    | Some e \<Rightarrow> if ok e then Inr content else Inl UnicodeDecodeError),
      chardet_detect = det,
      with_suffix = (\<lambda>p s. p @ s),
      excel_write = (\<lambda>p sheets. wr),
      excel_sheet_names = (\<lambda>p. Inr [''Sheet1'']),
      read_excel = (\<lambda>p s. Inr \<lparr>columns = [''A''], rows = []\<rparr>),
      read_csv = (\<lambda>p enc sep. csv sep),
      write_text = (\<lambda>p s. wr)\<rparr>"

text \<open>The same, with no file that can be opened.\<close>

definition no_file_env :: env where
  "no_file_env = (example_env (\<lambda>enc. True) None [] None (\<lambda>sep. Inl OtherException))
     \<lparr>file_bytes := (\<lambda>p. None)\<rparr>"

section \<open>Facts about the string primitives\<close>

lemmas str_defs = strip_def lstrip_def rstrip_def py_isspace_def

lemmas cells_defs = split_cells_def slice_1_m1_def str_defs

lemma split_on_nonempty: "split_on sep s \<noteq> []"
  by (induction s) (auto split: list.splits)

lemma split_on_append: "split_on sep (xs @ sep # ys) = split_on sep xs @ split_on sep ys"
proof (induction xs)
  case Nil
  show ?case by simp
next
  case (Cons c xs)
  obtain f fs where f: "split_on sep xs = f # fs"
    using split_on_nonempty [of sep xs] by (cases "split_on sep xs") auto
  show ?case using Cons f by simp
qed

lemma split_on_no_sep: "sep \<notin> set s \<Longrightarrow> split_on sep s = [s]"
  by (induction s) auto

section \<open>Rendering: the text of a small table, and tables without rows\<close>

text \<open>
  Claim C8. For a table of two columns \<open>h1\<close>, \<open>h2\<close> with the single row \<open>x\<close>, \<open>y\<close>, the text
  that \<open>_dataframe_to_md\<close> builds is the header row, the row of \<open>---\<close> cells and the data
  row, with one space around each cell, each line ended by one line feed and nothing after
  the last one.
\<close>

theorem md_table_two_columns_one_row:
  "md_table (fillna \<lparr>columns = [h1, h2], rows = [[Str x, Str y]]\<rparr>) =
     ''| '' @ h1 @ '' | '' @ h2 @ '' |'' @ [NL] @
     ''| --- | --- |'' @ [NL] @
     ''| '' @ x @ '' | '' @ y @ '' |'' @ [NL]"
  by (simp add: md_table_def md_row_def md_line_def fillna_def fill_cell_def cell_str_def)

theorem md_table_two_columns_one_row_witness:
  "md_table (fillna \<lparr>columns = [''x_col'', ''y_col''], rows = [[Str ''x'', Str ''y'']]\<rparr>) =
     ''| x_col | y_col |'' @ [NL] @ ''| --- | --- |'' @ [NL] @ ''| x | y |'' @ [NL]"
  using md_table_two_columns_one_row [of "''x_col''" "''y_col''" "''x''" "''y''"] by simp

text \<open>
  Claim C9. A table without data rows is empty for the renderer, whatever its header: the
  block that \<open>excel_to_md\<close> emits for such a sheet holds the heading (when there are several
  sheets) and the blank line, and no header row, separator row or data row; and
  \<open>_dataframe_to_md\<close> prints the diagnostic, writes nothing and returns \<open>False\<close>.
\<close>

theorem no_rows_no_table:
  "rows df = [] \<Longrightarrow>
     sheet_block n (sheet_name, df) =
       (if n > 1 then ''## '' @ sheet_name @ [NL, NL] else []) @ [NL] \<and>
     dataframe_to_md env msgs df md_file =
       \<lparr>printed = msgs @ [FrameEmpty], written = [], outcome = Inr False\<rparr>"
  by (simp add: sheet_block_def dataframe_to_md_def df_empty_def fillna_def returns_False_def)

theorem no_rows_no_table_witness:
  "rows \<lparr>columns = [''A'', ''B''], rows = []\<rparr> = [] \<and>
   sheet_block 1 (''Sheet1'', \<lparr>columns = [''A'', ''B''], rows = []\<rparr>) = [NL] \<and>
   dataframe_to_md no_file_env [] \<lparr>columns = [''A'', ''B''], rows = []\<rparr> ''out.md'' =
     \<lparr>printed = [FrameEmpty], written = [], outcome = Inr False\<rparr>"
  using no_rows_no_table [of "\<lparr>columns = [''A'', ''B''], rows = []\<rparr>" 1 "''Sheet1''" no_file_env "[]" "''out.md''"]
  by simp

section \<open>Splitting a line into cells\<close>

text \<open>
  Claim C10. The split into cells drops the first and the last field of the split at the
  pipes, whatever they hold: the text after the last pipe of a line does not reach the cells,
  nor does the text before the first pipe; the line \<open>| a | b\<close> has the single cell \<open>a\<close>.
\<close>

theorem split_cells_drops_outer_fields:
  "(PIPE \<notin> set rest \<longrightarrow> split_cells (pre @ PIPE # rest) = split_cells (pre @ [PIPE])) \<and>
   (PIPE \<notin> set front \<longrightarrow> split_cells (front @ PIPE # s) = split_cells (PIPE # s)) \<and>
   split_cells ''| a | b'' = [''a'']"
proof (intro conjI impI)
  assume r: "PIPE \<notin> set rest"
  have "split_on PIPE (pre @ PIPE # rest) = split_on PIPE pre @ [rest]"
    using r by (simp add: split_on_append split_on_no_sep)
  moreover have "split_on PIPE (pre @ [PIPE]) = split_on PIPE pre @ [[]]"
    by (simp add: split_on_append)
  ultimately show "split_cells (pre @ PIPE # rest) = split_cells (pre @ [PIPE])"
    using split_on_nonempty [of PIPE pre]
    by (simp add: split_cells_def slice_1_m1_def butlast_append)
next
  assume f: "PIPE \<notin> set front"
  show "split_cells (front @ PIPE # s) = split_cells (PIPE # s)"
    using f by (simp add: split_on_append split_on_no_sep split_cells_def slice_1_m1_def)
next
  show "split_cells ''| a | b'' = [''a'']"
    by (simp add: cells_defs)
qed

theorem split_cells_drops_outer_fields_witness:
  "PIPE \<notin> set '' b'' \<and> PIPE \<notin> set ''x '' \<and>
   split_cells ''| a | b'' = split_cells ''| a |'' \<and>
   split_cells ''x | a |'' = split_cells ''| a |''"
  using split_cells_drops_outer_fields [of "'' b''" "''| a ''" "''x ''" "'' a |''"]
  by simp

section \<open>The separator line of a block\<close>

text \<open>
  Claim C2. The claim asks that a second line of separator cells is consumed for any number
  of columns, one included. The pattern of the source needs two separator cells: in a block
  of one column the line \<open>| --- |\<close> is not taken as the separator and becomes the first data
  row. The pattern is matched against a prefix of the line: a line that starts with two
  separator cells is consumed whatever its other cells hold.
\<close>

theorem separator_of_one_column_becomes_row:
  "\<not> separator_match ''| --- |'' \<and>
   parse_table_lines [''| A |'', ''| --- |'', ''| 1 |''] =
     Some \<lparr>columns = [''A''], rows = [[Str ''---''], [Str ''1'']]\<rparr> \<and>
   separator_match ''| - | - | x |'' \<and>
   parse_table_lines [''| A | B | C |'', ''| - | - | x |''] =
     Some \<lparr>columns = [''A'', ''B'', ''C''], rows = []\<rparr>"
  by (simp add: parse_table_lines_def separator_match_def sep_cell_def sep_class_def cells_defs)

section \<open>Encoding detection\<close>

lemma try_encodings_find:
  "file_bytes env p = Some bs \<Longrightarrow>
   try_encodings env p n encs = Inr (find (passes env bs n) encs)"
  by (induction encs) (auto simp: passes_def split: sum.splits)

lemma passes_chardet [simp]: "passes (env\<lparr>chardet_detect := d\<rparr>) = passes env"
  by (simp add: passes_def fun_eq_iff)

text \<open>
  Claim C4. When a file can be opened and some candidate passes both checks, the detector
  returns the first candidate of the list that passes, whatever \<open>chardet\<close> is or would
  answer; when \<open>utf-8\<close> passes, as on a file of ASCII bytes, that candidate is \<open>utf-8\<close>.
\<close>

theorem detect_encoding_first_candidate:
  assumes "file_bytes env p = Some bs"
      and "find (passes env bs n) SUPPORTED_ENCODINGS = Some enc"
  shows "detect_encoding env p n = Inr (Some enc) \<and>
         (\<forall>d. detect_encoding (env\<lparr>chardet_detect := d\<rparr>) p n = Inr (Some enc)) \<and>
         (passes env bs n ''utf-8'' \<longrightarrow> enc = ''utf-8'')"
proof (intro conjI allI impI)
  show "detect_encoding env p n = Inr (Some enc)"
    using assms by (simp add: detect_encoding_def try_encodings_find)
next
  fix d
  have "file_bytes (env\<lparr>chardet_detect := d\<rparr>) p = Some bs"
    using assms(1) by simp
  then show "detect_encoding (env\<lparr>chardet_detect := d\<rparr>) p n = Inr (Some enc)"
    using assms(2) by (simp add: detect_encoding_def try_encodings_find)
next
  assume "passes env bs n ''utf-8''"
  then show "enc = ''utf-8''"
    using assms(2) by (simp add: SUPPORTED_ENCODINGS_def)
qed

theorem detect_encoding_first_candidate_witness:
  "detect_encoding
     (example_env (\<lambda>enc. enc \<noteq> ''utf-8'' \<and> enc \<noteq> ''utf-8-sig'') None ''abc'' None (\<lambda>sep. Inl OSError))
     ''f.md'' 1024 = Inr (Some ''gbk'') \<and>
   detect_encoding (example_env (\<lambda>enc. True) None ''abc'' None (\<lambda>sep. Inl OSError))
     ''f.md'' 1024 = Inr (Some ''utf-8'')"
  using detect_encoding_first_candidate
          [of "example_env (\<lambda>enc. enc \<noteq> ''utf-8'' \<and> enc \<noteq> ''utf-8-sig'') None ''abc'' None
                 (\<lambda>sep. Inl OSError)" "''f.md''" "[]" 1024 "''gbk''"]
        detect_encoding_first_candidate
          [of "example_env (\<lambda>enc. True) None ''abc'' None (\<lambda>sep. Inl OSError)"
              "''f.md''" "[]" 1024 "''utf-8''"]
  by (simp add: example_env_def passes_def SUPPORTED_ENCODINGS_def)

text \<open>
  Claim C5. When the file can be opened and no candidate passes both checks, the detector
  returns the guess of \<open>chardet\<close> if \<open>chardet\<close> can be imported and the confidence it reports
  is above 0.7, and \<open>utf-8\<close> in every other case.
\<close>

theorem detect_encoding_fallback:
  assumes "file_bytes env p = Some bs"
      and "\<forall>enc \<in> set SUPPORTED_ENCODINGS. \<not> passes env bs n enc"
  shows "detect_encoding env p n =
     (case chardet_detect env of
        None \<Rightarrow> Inr (Some ''utf-8'')
      | Some detect \<Rightarrow>
          if cd_confidence (detect (take (n * 4) bs)) > 7 / 10
          then Inr (cd_encoding (detect (take (n * 4) bs)))
          else Inr (Some ''utf-8''))"
proof -
  have "find (passes env bs n) SUPPORTED_ENCODINGS = None"
    using assms(2) by (simp add: find_None_iff)
  then have "try_encodings env p n SUPPORTED_ENCODINGS = Inr None"
    using assms(1) by (simp add: try_encodings_find)
  then show ?thesis
    using assms(1)
    by (simp add: detect_encoding_def chardet_fallback_def Let_def split: option.splits)
qed

theorem detect_encoding_fallback_witness:
  "detect_encoding
     (example_env (\<lambda>enc. False)
        (Some (\<lambda>bs. \<lparr>cd_encoding = Some ''windows-1253'', cd_confidence = 8 / 10\<rparr>))
        [] None (\<lambda>sep. Inl OSError))
     ''f.md'' 1024 = Inr (Some ''windows-1253'') \<and>
   detect_encoding
     (example_env (\<lambda>enc. False)
        (Some (\<lambda>bs. \<lparr>cd_encoding = Some ''windows-1253'', cd_confidence = 7 / 10\<rparr>))
        [] None (\<lambda>sep. Inl OSError))
     ''f.md'' 1024 = Inr (Some ''utf-8'') \<and>
   detect_encoding (example_env (\<lambda>enc. False) None [] None (\<lambda>sep. Inl OSError))
     ''f.md'' 1024 = Inr (Some ''utf-8'')"
  using detect_encoding_fallback
          [of "example_env (\<lambda>enc. False)
                 (Some (\<lambda>bs. \<lparr>cd_encoding = Some ''windows-1253'', cd_confidence = 8 / 10\<rparr>))
                 [] None (\<lambda>sep. Inl OSError)" "''f.md''" "[]" 1024]
        detect_encoding_fallback
          [of "example_env (\<lambda>enc. False)
                 (Some (\<lambda>bs. \<lparr>cd_encoding = Some ''windows-1253'', cd_confidence = 7 / 10\<rparr>))
                 [] None (\<lambda>sep. Inl OSError)" "''f.md''" "[]" 1024]
        detect_encoding_fallback
          [of "example_env (\<lambda>enc. False) None [] None (\<lambda>sep. Inl OSError)" "''f.md''" "[]" 1024]
  by (simp add: example_env_def passes_def)

section \<open>Rows of an extracted table\<close>

lemma parse_data_lines_filter:
  "parse_data_lines h ls acc =
     acc @ filter (\<lambda>cells. length cells = length h)
             (map split_cells (filter (\<lambda>l. strip l \<noteq> [] \<and> PIPE \<in> set l) ls))"
  by (induction ls arbitrary: acc) (simp_all add: Let_def)

lemma parse_table_lines_invariant:
  "parse_table_lines ls = Some t \<Longrightarrow> table_invariant t"
  by (auto simp: parse_table_lines_def Let_def parse_data_lines_filter table_invariant_def
           split: if_splits)

lemma close_table_cases:
  "t \<in> set (close_table tables cur) \<Longrightarrow> t \<in> set tables \<or> parse_table_lines cur = Some t"
  by (auto simp: close_table_def split: option.splits)

lemma scan_lines_origin:
  "scan_lines ls tables b cur = (tables', b', cur') \<Longrightarrow> t \<in> set tables' \<Longrightarrow>
   t \<in> set tables \<or> (\<exists>block. parse_table_lines block = Some t)"
proof (induction ls arbitrary: tables b cur)
  case Nil
  then show ?case by simp
next
  case (Cons l ls)
  show ?case
  proof (cases "is_table_line (rstrip l)")
    case True
    with Cons.prems have "scan_lines ls tables True (cur @ [rstrip l]) = (tables', b', cur')"
      by (simp add: Let_def)
    from Cons.IH [OF this Cons.prems(2)] show ?thesis .
  next
    case False
    show ?thesis
    proof (cases "b \<and> cur \<noteq> []")
      case True
      with False Cons.prems
      have "scan_lines ls (close_table tables cur) False [] = (tables', b', cur')"
        by (simp add: Let_def)
      from Cons.IH [OF this Cons.prems(2)] show ?thesis
        using close_table_cases by blast
    next
      case open_or_empty: False
      with False Cons.prems have "scan_lines ls tables b cur = (tables', b', cur')"
        by (auto simp add: Let_def)
      from Cons.IH [OF this Cons.prems(2)] show ?thesis .
    qed
  qed
qed

lemma extract_origin:
  assumes t: "t \<in> set (extract_markdown_tables content)"
  shows "\<exists>block. parse_table_lines block = Some t"
proof -
  obtain tables b cur where s: "scan_lines (split_on NL content) [] False [] = (tables, b, cur)"
    by (cases "scan_lines (split_on NL content) [] False []") auto
  have o: "\<And>u. u \<in> set tables \<Longrightarrow> \<exists>block. parse_table_lines block = Some u"
    using scan_lines_origin [OF s] by auto
  show ?thesis
  proof (cases "b \<and> cur \<noteq> []")
    case True
    then have "t \<in> set (close_table tables cur)"
      using t s by (simp add: extract_markdown_tables_def)
    then show ?thesis using close_table_cases o by blast
  next
    case False
    then have "t \<in> set tables"
      using t s by (auto simp add: extract_markdown_tables_def)
    then show ?thesis using o by blast
  qed
qed

text \<open>
  Claim C3. Every table that the extraction returns is the parse of a block, and each of
  its rows has as many cells as there are column names. The rows of a parsed block are the
  cell lists of its candidate data lines (not blank, with a pipe) whose length is the number
  of column names, unchanged and in the order of the lines: the other lines are dropped.
\<close>

theorem extracted_rows_match_header:
  "(\<forall>t \<in> set (extract_markdown_tables content).
      (\<exists>block. parse_table_lines block = Some t) \<and>
      (\<forall>row \<in> set (rows t). length row = length (columns t))) \<and>
   (parse_table_lines lines = Some df \<longrightarrow>
      rows df = map (map Str)
        (filter (\<lambda>cells. length cells = length (columns df))
           (map split_cells
              (filter (\<lambda>l. strip l \<noteq> [] \<and> PIPE \<in> set l)
                 (if separator_match (lines ! 1) then drop 2 lines else drop 1 lines)))))"
proof (intro conjI ballI impI)
  fix t assume t: "t \<in> set (extract_markdown_tables content)"
  show "\<exists>block. parse_table_lines block = Some t"
    using extract_origin [OF t] .
  then obtain block where "parse_table_lines block = Some t" ..
  then have "table_invariant t"
    by (rule parse_table_lines_invariant)
  then show "\<And>row. row \<in> set (rows t) \<Longrightarrow> length row = length (columns t)"
    by (simp add: table_invariant_def)
next
  assume "parse_table_lines lines = Some df"
  then show "rows df = map (map Str)
        (filter (\<lambda>cells. length cells = length (columns df))
           (map split_cells
              (filter (\<lambda>l. strip l \<noteq> [] \<and> PIPE \<in> set l)
                 (if separator_match (lines ! 1) then drop 2 lines else drop 1 lines))))"
    by (auto simp: parse_table_lines_def Let_def parse_data_lines_filter split: if_splits)
qed

theorem extracted_rows_match_header_witness:
  "parse_table_lines
     [''| A | B |'', ''|---|---|'', ''| 1 | 2 |'', ''| 3 |'', ''| 4 | 5 | 6 |'', ''| 7 | 8 |''] =
     Some \<lparr>columns = [''A'', ''B''], rows = [[Str ''1'', Str ''2''], [Str ''7'', Str ''8'']]\<rparr> \<and>
   rows \<lparr>columns = [''A'', ''B''], rows = [[Str ''1'', Str ''2''], [Str ''7'', Str ''8'']]\<rparr> =
     map (map Str) [[''1'', ''2''], [''7'', ''8'']]"
  using extracted_rows_match_header
          [of "''| A | B |''"
              "[''| A | B |'', ''|---|---|'', ''| 1 | 2 |'', ''| 3 |'', ''| 4 | 5 | 6 |'', ''| 7 | 8 |'']"
              "\<lparr>columns = [''A'', ''B''], rows = [[Str ''1'', Str ''2''], [Str ''7'', Str ''8'']]\<rparr>"]
  by (simp add: parse_table_lines_def separator_match_def sep_cell_def sep_class_def cells_defs)

section \<open>The delimiters of the CSV reader\<close>

lemma try_separators_all_fail:
  "try_separators env f enc seps = None \<longleftrightarrow> (\<forall>sep \<in> set seps. isl (read_csv env f enc sep))"
  by (induction seps) (auto split: sum.splits)

text \<open>
  Claim C7, amended. When the encoding was detected and the read with the given delimiter
  raises, \<open>convert_csv_to_md\<close> reads again with \<open>;\<close>, then TAB, then \<open>|\<close>, and goes on with
  the first read that succeeds; the reads end the operation with \<open>False\<close> exactly when the
  three of them raise. When the read with the given delimiter raises and the read with \<open>;\<close>
  succeeds, the frame read with \<open>;\<close> is the one that is rendered. The operation returns
  \<open>True\<close> exactly when one of the three reads succeeds, the frame of the first one that does
  is not empty and its text can be written; it returns \<open>False\<close> in every other case, also
  after a read that succeeded. (Whether the first read of a file raises is decided by
  \<open>read_csv\<close>, a field of the environment, not by the converter.)
\<close>

theorem csv_fallback_order:
  assumes "detect_encoding env csv_file 1024 = Inr enc"
      and "read_csv env csv_file enc delimiter = Inl e"
  shows "try_separators env csv_file enc fallback_separators =
           (case read_csv env csv_file enc '';'' of
              Inr df \<Rightarrow> Some ('';'', df)
            | Inl _ \<Rightarrow>
               (case read_csv env csv_file enc [CHR 0x09] of
                  Inr df \<Rightarrow> Some ([CHR 0x09], df)
                | Inl _ \<Rightarrow>
                   (case read_csv env csv_file enc ''|'' of
                      Inr df \<Rightarrow> Some (''|'', df)
                    | Inl _ \<Rightarrow> None))) \<and>
         convert_csv_to_md env csv_file (Some md_file) delimiter =
           (case try_separators env csv_file enc fallback_separators of
              None \<Rightarrow> returns_False [DetectedEncoding enc, ReadCsvError e]
            | Some (sep, df) \<Rightarrow>
                dataframe_to_md env [DetectedEncoding enc, ReadCsvError e, UsingSeparator sep]
                  df md_file) \<and>
         (try_separators env csv_file enc fallback_separators = None \<longleftrightarrow>
            isl (read_csv env csv_file enc '';'') \<and> isl (read_csv env csv_file enc [CHR 0x09]) \<and>
            isl (read_csv env csv_file enc ''|'')) \<and>
         (\<forall>df. read_csv env csv_file enc '';'' = Inr df \<longrightarrow>
            convert_csv_to_md env csv_file (Some md_file) delimiter =
              dataframe_to_md env [DetectedEncoding enc, ReadCsvError e, UsingSeparator '';'']
                df md_file) \<and>
         outcome (convert_csv_to_md env csv_file (Some md_file) delimiter) =
           Inr (case try_separators env csv_file enc fallback_separators of
                  None \<Rightarrow> False
                | Some (sep, df) \<Rightarrow>
                    \<not> df_empty df \<and> write_text env md_file (md_table (fillna df)) = None)"
proof (intro conjI allI impI)
  show "try_separators env csv_file enc fallback_separators =
           (case read_csv env csv_file enc '';'' of
              Inr df \<Rightarrow> Some ('';'', df)
            | Inl _ \<Rightarrow>
               (case read_csv env csv_file enc [CHR 0x09] of
                  Inr df \<Rightarrow> Some ([CHR 0x09], df)
                | Inl _ \<Rightarrow>
                   (case read_csv env csv_file enc ''|'' of
                      Inr df \<Rightarrow> Some (''|'', df)
                    | Inl _ \<Rightarrow> None)))"
    by (simp add: fallback_separators_def split: sum.splits)
next
  show "convert_csv_to_md env csv_file (Some md_file) delimiter =
           (case try_separators env csv_file enc fallback_separators of
              None \<Rightarrow> returns_False [DetectedEncoding enc, ReadCsvError e]
            | Some (sep, df) \<Rightarrow>
                dataframe_to_md env [DetectedEncoding enc, ReadCsvError e, UsingSeparator sep]
                  df md_file)"
    using assms by (simp add: convert_csv_to_md_def)
next
  show "try_separators env csv_file enc fallback_separators = None \<longleftrightarrow>
            isl (read_csv env csv_file enc '';'') \<and> isl (read_csv env csv_file enc [CHR 0x09]) \<and>
            isl (read_csv env csv_file enc ''|'')"
    by (simp add: try_separators_all_fail fallback_separators_def del: try_separators.simps)
next
  fix df assume "read_csv env csv_file enc '';'' = Inr df"
  then show "convert_csv_to_md env csv_file (Some md_file) delimiter =
              dataframe_to_md env [DetectedEncoding enc, ReadCsvError e, UsingSeparator '';'']
                df md_file"
    using assms by (simp add: convert_csv_to_md_def fallback_separators_def)
next
  show "outcome (convert_csv_to_md env csv_file (Some md_file) delimiter) =
           Inr (case try_separators env csv_file enc fallback_separators of
                  None \<Rightarrow> False
                | Some (sep, df) \<Rightarrow>
                    \<not> df_empty df \<and> write_text env md_file (md_table (fillna df)) = None)"
    using assms
    by (simp add: convert_csv_to_md_def dataframe_to_md_def write_md_def returns_False_def
          returns_True_def split: option.splits prod.splits)
qed

theorem csv_fallback_order_witness:
  "convert_csv_to_md
     (example_env (\<lambda>enc. True) None [] None
        (\<lambda>sep. if sep = '';'' then Inr \<lparr>columns = [''a'', ''b''], rows = [[Str ''1'', Str ''2'']]\<rparr>
                else Inl OtherException))
     ''d.csv'' (Some ''d.md'') '','' =
   \<lparr>printed = [DetectedEncoding (Some ''utf-8''), ReadCsvError OtherException,
               UsingSeparator '';'', Converted ''d.md''],
    written = [(''d.md'', Text (''| a | b |'' @ [NL] @ ''| --- | --- |'' @ [NL] @ ''| 1 | 2 |'' @ [NL]))],
    outcome = Inr True\<rparr> \<and>
   convert_csv_to_md
     (example_env (\<lambda>enc. True) None [] None (\<lambda>sep. Inl OtherException))
     ''d.csv'' (Some ''d.md'') '','' =
   \<lparr>printed = [DetectedEncoding (Some ''utf-8''), ReadCsvError OtherException],
    written = [], outcome = Inr False\<rparr>"
  using csv_fallback_order
          [of "example_env (\<lambda>enc. True) None [] None
                 (\<lambda>sep. if sep = '';'' then Inr \<lparr>columns = [''a'', ''b''], rows = [[Str ''1'', Str ''2'']]\<rparr>
                         else Inl OtherException)"
              "''d.csv''" "Some ''utf-8''" "'',''" OtherException "''d.md''"]
        csv_fallback_order
          [of "example_env (\<lambda>enc. True) None [] None (\<lambda>sep. Inl OtherException)"
              "''d.csv''" "Some ''utf-8''" "'',''" OtherException "''d.md''"]
  by (simp add: example_env_def detect_encoding_def SUPPORTED_ENCODINGS_def fallback_separators_def
        dataframe_to_md_def df_empty_def write_md_def returns_True_def returns_False_def
        md_table_def md_row_def md_line_def fillna_def fill_cell_def cell_str_def)

text \<open>
  The claim as it is stated fails in two ways. After a first read that raises and a read
  with \<open>;\<close> that succeeds, the operation still returns \<open>False\<close> when the file cannot be
  written, although not all three other delimiters failed. And nothing in the converter
  makes the first read of a file with semicolons raise: when \<open>read_csv\<close> answers the comma
  with a frame of one column, as \<open>pandas\<close> does for the lines \<open>a;b\<close> and \<open>1;2\<close>, no other
  delimiter is tried and that frame is rendered.
\<close>

theorem csv_fallback_counterexample:
  "read_csv
     (example_env (\<lambda>enc. True) None [] (Some OSError)
        (\<lambda>sep. if sep = '';'' then Inr \<lparr>columns = [''a'', ''b''], rows = [[Str ''1,2,3'', Str ''4'']]\<rparr>
                else Inl OtherException))
     ''d.csv'' (Some ''utf-8'') '';'' =
     Inr \<lparr>columns = [''a'', ''b''], rows = [[Str ''1,2,3'', Str ''4'']]\<rparr> \<and>
   convert_csv_to_md
     (example_env (\<lambda>enc. True) None [] (Some OSError)
        (\<lambda>sep. if sep = '';'' then Inr \<lparr>columns = [''a'', ''b''], rows = [[Str ''1,2,3'', Str ''4'']]\<rparr>
                else Inl OtherException))
     ''d.csv'' (Some ''d.md'') '','' =
     \<lparr>printed = [DetectedEncoding (Some ''utf-8''), ReadCsvError OtherException,
                 UsingSeparator '';'', WriteFileError OSError],
      written = [], outcome = Inr False\<rparr> \<and>
   convert_csv_to_md
     (example_env (\<lambda>enc. True) None [] None
        (\<lambda>sep. if sep = '','' then Inr \<lparr>columns = [''a;b''], rows = [[Str ''1;2'']]\<rparr>
                else if sep = '';'' then Inr \<lparr>columns = [''a'', ''b''], rows = [[Str ''1'', Str ''2'']]\<rparr>
                else Inl OtherException))
     ''d.csv'' (Some ''d.md'') '','' =
     \<lparr>printed = [DetectedEncoding (Some ''utf-8''), Converted ''d.md''],
      written = [(''d.md'', Text (''| a;b |'' @ [NL] @ ''| --- |'' @ [NL] @ ''| 1;2 |'' @ [NL]))],
      outcome = Inr True\<rparr>"
  by (simp add: example_env_def convert_csv_to_md_def detect_encoding_def SUPPORTED_ENCODINGS_def
        fallback_separators_def dataframe_to_md_def df_empty_def write_md_def returns_True_def
        returns_False_def md_table_def md_row_def md_line_def fillna_def fill_cell_def cell_str_def
        Let_def)

section \<open>Exceptions that leave an operation\<close>

lemma md_to_excel_write_error:
  assumes "detect_encoding env md_file 1024 = Inr enc"
      and "read_file env md_file enc = Inr content"
      and "extract_markdown_tables content \<noteq> []"
      and "excel_write env out (name_sheets sheet_name (extract_markdown_tables content)) = Some e"
  shows "md_to_excel env md_file (Some out) sheet_name = raises [DetectedEncoding enc] e"
  using assms by (simp add: md_to_excel_def Let_def)

lemma missing_input_raises:
  assumes "file_bytes env f = None"
  shows "md_to_excel env f out_arg sheet_name = raises [] OSError"
    and "convert_csv_to_md env f out_arg delimiter = raises [] OSError"
  using assms
  by (simp_all add: md_to_excel_def convert_csv_to_md_def detect_encoding_def
        SUPPORTED_ENCODINGS_def Let_def)

text \<open>
  Claim C6. The claim asks that no exception leaves a conversion. In \<open>md_to_excel\<close> the
  write of the workbook stands outside every \<open>try\<close>: when the writer raises, the exception
  leaves the operation, with no message about it and no \<open>False\<close>. The call of
  \<open>detect_encoding\<close> stands outside the \<open>try\<close> as well, in \<open>md_to_excel\<close> and in
  \<open>convert_csv_to_md\<close>, and its handler catches the two codec errors only: on a file that
  cannot be opened the \<open>OSError\<close> leaves both operations.
\<close>

theorem exceptions_leave_conversions:
  "md_to_excel
     (example_env (\<lambda>enc. True) None (''| A | B |'' @ [NL] @ ''| --- | --- |'' @ [NL] @ ''| 1 | 2 |'')
        (Some OSError) (\<lambda>sep. Inl OtherException))
     ''t.md'' (Some ''t.xlsx'') ''Sheet1'' =
     \<lparr>printed = [DetectedEncoding (Some ''utf-8'')], written = [], outcome = Inl OSError\<rparr> \<and>
   md_to_excel no_file_env ''t.md'' None ''Sheet1'' =
     \<lparr>printed = [], written = [], outcome = Inl OSError\<rparr> \<and>
   convert_csv_to_md no_file_env ''t.csv'' None '','' =
     \<lparr>printed = [], written = [], outcome = Inl OSError\<rparr>"
proof (intro conjI)
  let ?env = "example_env (\<lambda>enc. True) None
                (''| A | B |'' @ [NL] @ ''| --- | --- |'' @ [NL] @ ''| 1 | 2 |'')
                (Some OSError) (\<lambda>sep. Inl OtherException)"
  have d: "detect_encoding ?env ''t.md'' 1024 = Inr (Some ''utf-8'')"
    by (simp add: example_env_def detect_encoding_def SUPPORTED_ENCODINGS_def)
  have r: "read_file ?env ''t.md'' (Some ''utf-8'') =
             Inr (''| A | B |'' @ [NL] @ ''| --- | --- |'' @ [NL] @ ''| 1 | 2 |'')"
    by (simp add: example_env_def read_file_def)
  have x: "extract_markdown_tables (''| A | B |'' @ [NL] @ ''| --- | --- |'' @ [NL] @ ''| 1 | 2 |'') =
             [\<lparr>columns = [''A'', ''B''], rows = [[Str ''1'', Str ''2'']]\<rparr>]"
    by (simp add: extract_markdown_tables_def close_table_def is_table_line_def
          parse_table_lines_def separator_match_def sep_cell_def sep_class_def cells_defs Let_def)
  have w: "excel_write ?env ''t.xlsx'' sheets = Some OSError" for sheets
    by (simp add: example_env_def)
  show "md_to_excel ?env ''t.md'' (Some ''t.xlsx'') ''Sheet1'' =
          \<lparr>printed = [DetectedEncoding (Some ''utf-8'')], written = [], outcome = Inl OSError\<rparr>"
    using md_to_excel_write_error [OF d r _ w] x by (simp add: raises_def)
next
  have n: "file_bytes no_file_env f = None" for f
    by (simp add: no_file_env_def example_env_def)
  show "md_to_excel no_file_env ''t.md'' None ''Sheet1'' =
          \<lparr>printed = [], written = [], outcome = Inl OSError\<rparr>"
    using missing_input_raises(1) [OF n] by (simp add: raises_def)
  show "convert_csv_to_md no_file_env ''t.csv'' None '','' =
          \<lparr>printed = [], written = [], outcome = Inl OSError\<rparr>"
    using missing_input_raises(2) [OF n] by (simp add: raises_def)
qed

section \<open>Rendering a table and extracting it again\<close>

lemma join_set: "set (join sep xs) \<subseteq> set sep \<union> (\<Union>x \<in> set xs. set x)"
  by (induction sep xs rule: join.induct) auto

lemma md_line_shape: "md_line xs = PIPE # (CHR '' '' # join '' | '' xs @ '' '') @ [PIPE]"
  by (simp add: md_line_def)

lemma padded_join:
  "xs \<noteq> [] \<Longrightarrow>
   CHR '' '' # join '' | '' xs @ '' |'' = concat (map (\<lambda>x. CHR '' '' # x @ '' |'') xs)"
  by (induction "'' | ''" xs rule: join.induct) simp_all

lemma md_line_concat:
  "xs \<noteq> [] \<Longrightarrow> md_line xs = PIPE # concat (map (\<lambda>x. CHR '' '' # x @ '' |'') xs)"
  using padded_join [of xs] by (simp add: md_line_def)

lemma split_on_padded:
  "\<forall>x \<in> set xs. PIPE \<notin> set x \<Longrightarrow>
   split_on PIPE (concat (map (\<lambda>x. CHR '' '' # x @ '' |'') xs)) =
     map (\<lambda>x. CHR '' '' # x @ '' '') xs @ [[]]"
proof (induction xs)
  case Nil
  show ?case by simp
next
  case (Cons x xs)
  have e: "concat (map (\<lambda>x. CHR '' '' # x @ '' |'') (x # xs)) =
           (CHR '' '' # x @ '' '') @ PIPE # concat (map (\<lambda>x. CHR '' '' # x @ '' |'') xs)"
    by simp
  have np: "PIPE \<notin> set (CHR '' '' # x @ '' '')"
    using Cons.prems by simp
  have ih: "split_on PIPE (concat (map (\<lambda>x. CHR '' '' # x @ '' |'') xs)) =
            map (\<lambda>x. CHR '' '' # x @ '' '') xs @ [[]]"
    using Cons by simp
  show ?case
    unfolding e split_on_append split_on_no_sep [OF np] ih by simp
qed

lemma dropWhile_all: "\<forall>c \<in> set s. P c \<Longrightarrow> dropWhile P s = []"
  by (induction s) auto

lemma scan_lines_blank:
  "cur \<noteq> [] \<Longrightarrow> scan_lines [[]] tables True cur = (close_table tables cur, False, [])"
  by (simp add: Let_def rstrip_def is_table_line_def)

lemma strip_padded: "strip (CHR '' '' # x @ '' '') = strip x"
proof (cases "\<forall>c \<in> set x. py_isspace c")
  case True
  have sp: "py_isspace (CHR '' '')"
    by (simp add: py_isspace_def)
  have d1: "dropWhile py_isspace x = []"
    using True by (intro dropWhile_all)
  have d2: "dropWhile py_isspace (x @ '' '') = []"
    using True sp by (intro dropWhile_all) auto
  show ?thesis
    unfolding strip_def lstrip_def rstrip_def by (simp only: dropWhile.simps sp d1 d2 if_True rev.simps)
next
  case False
  then have "dropWhile py_isspace (x @ '' '') = dropWhile py_isspace x @ '' ''"
    by (auto simp: dropWhile_append1)
  then show ?thesis by (simp add: strip_def lstrip_def rstrip_def py_isspace_def)
qed

lemma split_cells_md_line:
  assumes "xs \<noteq> []" and "\<forall>x \<in> set xs. PIPE \<notin> set x"
  shows "split_cells (md_line xs) = map strip xs"
proof -
  have "split_on PIPE (md_line xs) = [] # map (\<lambda>x. CHR '' '' # x @ '' '') xs @ [[]]"
    using assms by (simp add: md_line_concat split_on_padded)
  then show ?thesis
    by (simp add: split_cells_def slice_1_m1_def butlast_append strip_padded)
qed

lemma rstrip_md_line: "rstrip (md_line xs) = md_line xs"
  by (simp add: md_line_shape rstrip_def py_isspace_def)

lemma strip_md_line: "strip (md_line xs) = md_line xs"
  by (simp add: md_line_shape strip_def lstrip_def rstrip_def py_isspace_def)

lemma is_table_line_md_line: "is_table_line (md_line xs)"
  by (simp add: is_table_line_def strip_md_line) (simp add: md_line_shape)

lemma pipe_in_md_line: "PIPE \<in> set (md_line xs)"
  by (simp add: md_line_shape)

lemma md_line_not_blank: "strip (md_line xs) \<noteq> []"
  by (simp add: strip_md_line) (simp add: md_line_shape)

lemma no_NL_md_line: "\<forall>x \<in> set xs. NL \<notin> set x \<Longrightarrow> NL \<notin> set (md_line xs)"
  using join_set [of "'' | ''" xs] by (auto simp: md_line_def)

lemma split_on_lines:
  "\<forall>l \<in> set ls. NL \<notin> set l \<Longrightarrow>
   split_on NL (concat (map (\<lambda>l. l @ [NL]) ls) @ rest) = ls @ split_on NL rest"
proof (induction ls)
  case Nil
  show ?case by simp
next
  case (Cons l ls)
  have e: "concat (map (\<lambda>l. l @ [NL]) (l # ls)) @ rest =
           l @ NL # (concat (map (\<lambda>l. l @ [NL]) ls) @ rest)"
    by simp
  have nl: "NL \<notin> set l"
    using Cons.prems by simp
  have ih: "split_on NL (concat (map (\<lambda>l. l @ [NL]) ls) @ rest) = ls @ split_on NL rest"
    using Cons by simp
  show ?case
    unfolding e split_on_append split_on_no_sep [OF nl] ih by simp
qed

lemma scan_lines_table_lines:
  "\<forall>l \<in> set ls. rstrip l = l \<and> is_table_line l \<Longrightarrow>
   scan_lines (ls @ rest) tables b cur = scan_lines rest tables (b \<or> ls \<noteq> []) (cur @ ls)"
  by (induction ls arbitrary: b cur) (simp_all add: Let_def)

lemma sep_cell_dashes: "sep_cell ('' --- |'' @ r) = Some r"
  by (simp add: sep_cell_def sep_class_def py_isspace_def)

lemma separator_match_md_line:
  assumes "2 \<le> n"
  shows "separator_match (md_line (replicate n ''---''))"
proof -
  obtain m where n: "n = Suc (Suc m)"
    using assms by (metis Suc_le_D numeral_2_eq_2 Suc_le_mono)
  have "md_line (replicate n ''---'') =
        PIPE # '' --- |'' @ ('' --- |'' @ concat (map (\<lambda>x. CHR '' '' # x @ '' |'') (replicate m ''---'')))"
    by (simp add: md_line_concat n)
  then show ?thesis
    by (simp only: separator_match_def list.case sep_cell_dashes option.case) simp
qed

lemma md_table_lines:
  "md_table df = concat (map (\<lambda>l. l @ [NL])
     (md_line (columns df) # md_line (replicate (length (columns df)) ''---'') #
      map (\<lambda>row. md_line (map cell_str row)) (rows df)))"
  by (simp add: md_table_def md_row_def comp_def)

lemma md_table_fillna: "md_table (fillna df) = md_table df"
proof -
  have "cell_str \<circ> fill_cell = cell_str"
    by (auto simp: fun_eq_iff cell_str_def fill_cell_def split: cell.splits)
  then show ?thesis by (simp add: md_table_def fillna_def comp_def)
qed

lemma extract_md_table:
  assumes cols: "2 \<le> length (columns df)"
      and inv: "\<forall>row \<in> set (rows df). length row = length (columns df)"
      and hdr: "\<forall>h \<in> set (columns df). PIPE \<notin> set h \<and> NL \<notin> set h"
      and cel: "\<forall>row \<in> set (rows df). \<forall>c \<in> set row. PIPE \<notin> set (cell_str c) \<and> NL \<notin> set (cell_str c)"
  shows "extract_markdown_tables (md_table (fillna df)) =
           [\<lparr>columns = map strip (columns df),
             rows = map (map (\<lambda>c. Str (strip (cell_str c)))) (rows df)\<rparr>]"
proof -
  define hl where "hl = md_line (columns df)"
  define sl where "sl = md_line (replicate (length (columns df)) ''---'')"
  define dl where "dl = map (\<lambda>row. md_line (map cell_str row)) (rows df)"
  define block where "block = hl # sl # dl"
  have ne: "columns df \<noteq> []" using cols by auto
  have noNL: "\<forall>l \<in> set block. NL \<notin> set l"
  proof
    fix l assume "l \<in> set block"
    then consider "l = hl" | "l = sl" | row where "row \<in> set (rows df)" "l = md_line (map cell_str row)"
      by (auto simp: block_def dl_def)
    then show "NL \<notin> set l"
    proof cases
      case 1
      then show ?thesis using hdr by (simp add: hl_def no_NL_md_line)
    next
      case 2
      then show ?thesis by (simp add: sl_def no_NL_md_line)
    next
      case 3
      then show ?thesis using cel by (simp add: no_NL_md_line)
    qed
  qed
  have tls: "\<forall>l \<in> set block. rstrip l = l \<and> is_table_line l"
  proof
    fix l assume "l \<in> set block"
    then obtain xs where "l = md_line xs"
      by (auto simp: block_def hl_def sl_def dl_def)
    then show "rstrip l = l \<and> is_table_line l"
      by (simp add: rstrip_md_line is_table_line_md_line)
  qed
  have "md_table df = concat (map (\<lambda>l. l @ [NL]) block) @ []"
    by (simp add: md_table_lines block_def hl_def sl_def dl_def)
  then have "md_table (fillna df) = concat (map (\<lambda>l. l @ [NL]) block) @ []"
    by (simp only: md_table_fillna)
  then have "split_on NL (md_table (fillna df)) = block @ [[]]"
    using split_on_lines [OF noNL, of "[]"] by simp
  moreover have "block \<noteq> []"
    by (simp add: block_def)
  then have "scan_lines (block @ [[]]) [] False [] = (close_table [] block, False, [])"
    using scan_lines_table_lines [OF tls, of "[[]]" "[]" False "[]"]
    by (simp add: scan_lines_blank del: scan_lines.simps)
  ultimately have ex: "extract_markdown_tables (md_table (fillna df)) = close_table [] block"
    by (simp add: extract_markdown_tables_def)
  have headers: "split_cells hl = map strip (columns df)"
    using ne hdr by (simp add: hl_def split_cells_md_line)
  have sep: "separator_match sl"
    using cols by (simp add: sl_def separator_match_md_line)
  have keep: "filter (\<lambda>l. strip l \<noteq> [] \<and> PIPE \<in> set l) dl = dl"
    by (auto simp: dl_def md_line_not_blank pipe_in_md_line filter_id_conv)
  have cells: "map split_cells dl = map (map (\<lambda>c. strip (cell_str c))) (rows df)"
  proof -
    have "\<And>row. row \<in> set (rows df) \<Longrightarrow>
            split_cells (md_line (map cell_str row)) = map strip (map cell_str row)"
    proof -
      fix row assume r: "row \<in> set (rows df)"
      then have "map cell_str row \<noteq> []" using inv ne by auto
      moreover have "\<forall>x \<in> set (map cell_str row). PIPE \<notin> set x" using cel r by auto
      ultimately show "split_cells (md_line (map cell_str row)) = map strip (map cell_str row)"
        by (rule split_cells_md_line)
    qed
    then show ?thesis by (simp add: dl_def comp_def)
  qed
  have lens: "filter (\<lambda>cells. length cells = length (columns df))
                (map (map (\<lambda>c. strip (cell_str c))) (rows df)) =
              map (map (\<lambda>c. strip (cell_str c))) (rows df)"
    using inv by (auto simp: filter_id_conv)
  have p0: "block ! 0 = hl" "block ! Suc 0 = sl" "drop 2 block = dl" "\<not> length block < 2"
    by (simp_all add: block_def)
  have data: "parse_data_lines (map strip (columns df)) dl [] =
                map (map (\<lambda>c. strip (cell_str c))) (rows df)"
    by (simp only: parse_data_lines_filter keep cells length_map lens append_Nil)
  have "parse_table_lines block =
          Some \<lparr>columns = map strip (columns df),
                rows = map (map (\<lambda>c. Str (strip (cell_str c)))) (rows df)\<rparr>"
    using ne by (simp add: parse_table_lines_def Let_def p0 headers sep data comp_def)
  then show ?thesis by (simp add: ex close_table_def)
qed


text \<open>
  Claim C1, amended. Take a table with at least two columns whose rows have as many cells
  as there are column names, and whose column names and cells contain neither a pipe nor a
  line feed. The extraction from the text that \<open>_dataframe_to_md\<close> renders for it (the text
  it writes when the table has a row and the file can be written) gives exactly one table:
  the column names and the cells of the original, each trimmed, a missing value being the
  empty string.
\<close>

theorem roundtrip_render_extract:
  assumes "2 \<le> length (columns df)"
      and "\<forall>row \<in> set (rows df). length row = length (columns df)"
      and "\<forall>h \<in> set (columns df). PIPE \<notin> set h \<and> NL \<notin> set h"
      and "\<forall>row \<in> set (rows df). \<forall>c \<in> set row.
             PIPE \<notin> set (cell_str c) \<and> NL \<notin> set (cell_str c)"
  shows "extract_markdown_tables (md_table (fillna df)) =
           [\<lparr>columns = map strip (columns df),
             rows = map (map (\<lambda>c. Str (strip (cell_str c)))) (rows df)\<rparr>] \<and>
         (rows df \<noteq> [] \<and> write_text env md_file (md_table (fillna df)) = None \<longrightarrow>
            written (dataframe_to_md env msgs df md_file) =
              [(md_file, Text (md_table (fillna df)))])"
proof
  show "extract_markdown_tables (md_table (fillna df)) =
           [\<lparr>columns = map strip (columns df),
             rows = map (map (\<lambda>c. Str (strip (cell_str c)))) (rows df)\<rparr>]"
    using assms by (rule extract_md_table)
next
  have "columns df \<noteq> []"
    using assms(1) by auto
  then show "rows df \<noteq> [] \<and> write_text env md_file (md_table (fillna df)) = None \<longrightarrow>
            written (dataframe_to_md env msgs df md_file) =
              [(md_file, Text (md_table (fillna df)))]"
    by (simp add: dataframe_to_md_def df_empty_def write_md_def returns_True_def)
qed

theorem roundtrip_render_extract_witness:
  "extract_markdown_tables
     (md_table (fillna \<lparr>columns = ['' a'', ''b''],
                        rows = [[Str ''x '', NaN], [Str ''1'', Str ''2'']]\<rparr>)) =
     [\<lparr>columns = [''a'', ''b''], rows = [[Str ''x'', Str []], [Str ''1'', Str ''2'']]\<rparr>] \<and>
   written (dataframe_to_md
              (example_env (\<lambda>enc. True) None [] None (\<lambda>sep. Inl OtherException)) []
              \<lparr>columns = ['' a'', ''b''], rows = [[Str ''x '', NaN], [Str ''1'', Str ''2'']]\<rparr>
              ''out.md'') =
     [(''out.md'',
       Text (md_table (fillna \<lparr>columns = ['' a'', ''b''],
                                rows = [[Str ''x '', NaN], [Str ''1'', Str ''2'']]\<rparr>)))]"
  using roundtrip_render_extract
          [of "\<lparr>columns = ['' a'', ''b''], rows = [[Str ''x '', NaN], [Str ''1'', Str ''2'']]\<rparr>"
              "example_env (\<lambda>enc. True) None [] None (\<lambda>sep. Inl OtherException)"
              "''out.md''" "[]"]
  by (simp add: cell_str_def str_defs example_env_def)

text \<open>
  A cell with a line feed breaks the claim as it is stated: the rendered row is cut into two
  lines, neither of which gives two cells, and the row is lost.
\<close>

theorem roundtrip_line_feed_counterexample:
  "extract_markdown_tables
     (md_table (fillna \<lparr>columns = [''a'', ''b''],
                        rows = [[Str (''x'' @ [NL] @ ''y''), Str ''z'']]\<rparr>)) =
     [\<lparr>columns = [''a'', ''b''], rows = []\<rparr>] \<and>
   extract_markdown_tables
     (md_table (fillna \<lparr>columns = [''a'', ''b''],
                        rows = [[Str (''x'' @ [NL] @ ''y''), Str ''z'']]\<rparr>)) \<noteq>
     [\<lparr>columns = [''a'', ''b''], rows = [[Str (''x'' @ [NL] @ ''y''), Str ''z'']]\<rparr>]"
  by (simp add: extract_markdown_tables_def md_table_def md_row_def md_line_def fillna_def
        fill_cell_def cell_str_def close_table_def is_table_line_def parse_table_lines_def
        separator_match_def sep_cell_def sep_class_def cells_defs Let_def)

end
